theory Spec2Isabelle
  imports Complex_Main "HOL-Library.Multiset" "HOL-Library.Word"
begin

section \<open>Numbers and truthiness\<close>

text \<open>
  A JavaScript \<^verbatim>\<open>number\<close> is a \<^typ>\<open>real\<close>, the value of the double; \<^verbatim>\<open>NaN\<close> and the
  infinities are outside the model. A value that may be \<^verbatim>\<open>undefined\<close> or \<^verbatim>\<open>null\<close> is an
  \<^typ>\<open>'a option\<close>.

  \<^verbatim>\<open>x || d\<close> on a number yields \<^verbatim>\<open>d\<close> when \<^verbatim>\<open>x\<close> is falsy, that is \<^verbatim>\<open>0\<close>
  (or missing), and \<^verbatim>\<open>x\<close> otherwise.
\<close>

definition js_or :: "real \<Rightarrow> real \<Rightarrow> real" where
  "js_or x d = (if x = 0 then d else x)"

fun js_or_opt :: "real option \<Rightarrow> real \<Rightarrow> real" where
  "js_or_opt None d = d"
| "js_or_opt (Some x) d = js_or x d"

subsection \<open>Double-precision arithmetic\<close>

text \<open>
  \<^verbatim>\<open>a + b\<close> and \<^verbatim>\<open>a * b\<close> on numbers are the exact sum and product rounded to the
  nearest double, ties to the even mantissa (IEEE 754 binary64): \<open>round_double\<close> keeps 53
  significant bits. The exponent is not bounded here, so overflow to infinity and the
  subnormal numbers below \<open>2^-1022\<close> are outside the model. The reduce of the cart store is
  modelled with this arithmetic (\<open>aggregate_double\<close>); the interpolation of the gauge and the
  exact reading \<open>aggregate\<close> of the reduce use the exact operations.
\<close>

definition pow2 :: "int \<Rightarrow> real" where
  "pow2 e = (if 0 \<le> e then 2 ^ nat e else 1 / 2 ^ nat (- e))"

text \<open>For \<open>x \<ge> 1\<close> and for \<open>0 < x < 1\<close>: the \<open>e\<close> with \<open>2^e \<le> x < 2^(e+1)\<close>.\<close>

function binade_up :: "real \<Rightarrow> int" where
  "binade_up x = (if x < 2 then 0 else binade_up (x / 2) + 1)"
  by pat_completeness auto
termination
proof (relation "measure (\<lambda>x. nat \<lfloor>x\<rfloor>)")
  show "wf (measure (\<lambda>x::real. nat \<lfloor>x\<rfloor>))" by simp
next
  fix x :: real
  assume "\<not> x < 2"
  then have x: "2 \<le> x" by simp
  then have "\<lfloor>x / 2\<rfloor> < \<lfloor>x\<rfloor>" by linarith
  moreover from x have "0 < \<lfloor>x\<rfloor>" by linarith
  ultimately show "(x / 2, x) \<in> measure (\<lambda>x. nat \<lfloor>x\<rfloor>)" by simp
qed

function binade_down :: "real \<Rightarrow> int" where
  "binade_down x = (if x \<le> 0 \<or> 1 \<le> x then 0 else binade_down (2 * x) - 1)"
  by pat_completeness auto
termination
proof (relation "measure (\<lambda>x. nat \<lfloor>1 / x\<rfloor>)")
  show "wf (measure (\<lambda>x::real. nat \<lfloor>1 / x\<rfloor>))" by simp
next
  fix x :: real
  assume "\<not> (x \<le> 0 \<or> 1 \<le> x)"
  then have x: "0 < x" "x < 1" by simp_all
  then have one: "1 < 1 / x" by simp
  have half: "1 / (2 * x) = (1 / x) / 2" by simp
  define y where "y = 1 / x"
  from one have y: "1 < y" by (simp add: y_def)
  then have a: "1 \<le> \<lfloor>y\<rfloor>" by (simp add: le_floor_iff)
  then have a': "(1::real) \<le> of_int \<lfloor>y\<rfloor>" by linarith
  have b: "of_int \<lfloor>y / 2\<rfloor> \<le> y / 2" by (rule of_int_floor_le)
  have c: "y < of_int \<lfloor>y\<rfloor> + 1" by linarith
  from a' b c have "(of_int \<lfloor>y / 2\<rfloor> :: real) < of_int \<lfloor>y\<rfloor>" by linarith
  then have "\<lfloor>y / 2\<rfloor> < \<lfloor>y\<rfloor>" by (simp only: of_int_less_iff)
  moreover from a have "0 < \<lfloor>y\<rfloor>" by linarith
  ultimately have "\<lfloor>(1 / x) / 2\<rfloor> < \<lfloor>1 / x\<rfloor>" "0 < \<lfloor>1 / x\<rfloor>"
    by (simp_all add: y_def)
  then show "(2 * x, x) \<in> measure (\<lambda>x. nat \<lfloor>1 / x\<rfloor>)"
    by (simp add: half del: divide_divide_eq_left)
qed

declare binade_up.simps [simp del] binade_down.simps [simp del]

definition binade :: "real \<Rightarrow> int" where
  "binade x = (if 1 \<le> x then binade_up x else binade_down x)"

definition round_half_even :: "real \<Rightarrow> int" where
  "round_half_even y =
     (let f = \<lfloor>y\<rfloor>; r = y - of_int f in
      if r < 1 / 2 then f else if 1 / 2 < r then f + 1 else if even f then f else f + 1)"

definition round_double :: "real \<Rightarrow> real" where
  "round_double x =
     (if x = 0 then 0
      else (let ulp = pow2 (binade \<bar>x\<bar> - 52) in of_int (round_half_even (x / ulp)) * ulp))"

section \<open>The cart store (utils/cartStore)\<close>

record MacroNutrients =
  protein :: real
  fat :: real
  total_carbs :: real
  fiber :: real
  sugar :: real

text \<open>
  A cart item as the store reads it: \<^verbatim>\<open>item.macros?.protein\<close> and \<^verbatim>\<open>item.quantity\<close>.
  The page builds items as \<^verbatim>\<open>{ name, macros }\<close>, so \<^verbatim>\<open>quantity\<close> may be missing.
\<close>

record CartItem =
  item_id :: string
  name :: string
  macros :: "MacroNutrients option"
  quantity :: "real option"

text \<open>
  The parsed reply of the scoring contract. Two fields are optional here because the page
  tests them for absence (\<^verbatim>\<open>predicted_spike ?? null\<close>, \<^verbatim>\<open>if (resultData.balanced_macros)\<close>).
\<close>

record CastleVerdeIndexResponse =
  predicted_spike :: "real option"
  input_data :: MacroNutrients
  balanced_macros :: "MacroNutrients option"
  base_ratio :: real
  tier_label :: string
  tier_color :: string

record CartTotals = CastleVerdeIndexResponse +
  itemCount :: nat

record CartState =
  items :: "CartItem list"
  cartTotals :: "CartTotals option"
  anchorKey :: string
  error :: "string option"

record CalculationRequest =
  aggregated_input_data :: MacroNutrients
  anchor_id :: string

text \<open>The request in flight, with \<^verbatim>\<open>items.length\<close> as the closure captured it.\<close>

record PendingTotals =
  requestBody :: CalculationRequest
  capturedCount :: nat

datatype thrown = ErrorObj string | NonError

datatype 'a outcome = Rejected thrown | Resolved 'a

definition initialCartState :: CartState where
  "initialCartState = \<lparr>items = [], cartTotals = None, anchorKey = ''protein'', error = None\<rparr>"

subsection \<open>Aggregation: the \<^verbatim>\<open>reduce\<close> of calculateTotals\<close>

definition macro_of :: "(MacroNutrients \<Rightarrow> real) \<Rightarrow> CartItem \<Rightarrow> real" where
  "macro_of f item = (case macros item of None \<Rightarrow> 0 | Some m \<Rightarrow> js_or (f m) 0)"

definition reducer :: "MacroNutrients \<Rightarrow> CartItem \<Rightarrow> MacroNutrients" where
  "reducer acc item =
     (let q = js_or_opt (quantity item) 1 in
      \<lparr>protein = protein acc + macro_of protein item * q,
       fat = fat acc + macro_of fat item * q,
       total_carbs = total_carbs acc + macro_of total_carbs item * q,
       fiber = fiber acc + macro_of fiber item * q,
       sugar = sugar acc + macro_of sugar item * q\<rparr>)"

definition zeroMacros :: MacroNutrients where
  "zeroMacros = \<lparr>protein = 0, fat = 0, total_carbs = 0, fiber = 0, sugar = 0\<rparr>"

definition aggregate :: "CartItem list \<Rightarrow> MacroNutrients" where
  "aggregate its = foldl reducer zeroMacros its"

text \<open>
  \<open>reducer\<close> and \<open>aggregate\<close> read the \<^verbatim>\<open>+=\<close> and \<^verbatim>\<open>*\<close> of the callback as the exact sum
  and product. What the store computes is the same callback in double arithmetic, every
  product and every sum rounded, from left to right:
\<close>

definition reducer_double :: "MacroNutrients \<Rightarrow> CartItem \<Rightarrow> MacroNutrients" where
  "reducer_double acc item =
     (let q = js_or_opt (quantity item) 1 in
      \<lparr>protein = round_double (protein acc + round_double (macro_of protein item * q)),
       fat = round_double (fat acc + round_double (macro_of fat item * q)),
       total_carbs = round_double (total_carbs acc + round_double (macro_of total_carbs item * q)),
       fiber = round_double (fiber acc + round_double (macro_of fiber item * q)),
       sugar = round_double (sugar acc + round_double (macro_of sugar item * q))\<rparr>)"

definition aggregate_double :: "CartItem list \<Rightarrow> MacroNutrients" where
  "aggregate_double its = foldl reducer_double zeroMacros its"

subsection \<open>calculateTotals, split at its \<^verbatim>\<open>await\<close>\<close>

definition calculateTotals_begin :: "CartState \<Rightarrow> CartState \<times> PendingTotals option" where
  "calculateTotals_begin st =
     (let st1 = st\<lparr>error := None\<rparr> in
      if items st1 = [] then (st1\<lparr>cartTotals := None\<rparr>, None)
      else (st1, Some \<lparr>requestBody = \<lparr>aggregated_input_data = aggregate_double (items st1),
                                      anchor_id = anchorKey st1\<rparr>,
                       capturedCount = length (items st1)\<rparr>))"

definition totalsWithCount :: "CastleVerdeIndexResponse \<Rightarrow> nat \<Rightarrow> CartTotals" where
  "totalsWithCount result n =
     \<lparr>predicted_spike = predicted_spike result, input_data = input_data result,
      balanced_macros = balanced_macros result, base_ratio = base_ratio result,
      tier_label = tier_label result, tier_color = tier_color result, itemCount = n\<rparr>"

definition errorMessage_of :: "thrown \<Rightarrow> string" where
  "errorMessage_of e = (case e of ErrorObj m \<Rightarrow> m | NonError \<Rightarrow> ''Unknown error calculating totals'')"

text \<open>
  The continuation after the \<^verbatim>\<open>await\<close>, run on the store as it is when the reply arrives.
  The reply's \<^verbatim>\<open>ok\<close> flag is not read: whatever body parses is stored.
\<close>

definition calculateTotals_settle ::
  "PendingTotals \<Rightarrow> CastleVerdeIndexResponse outcome \<Rightarrow> CartState \<Rightarrow> CartState" where
  "calculateTotals_settle p reply st =
     (case reply of
        Resolved result \<Rightarrow> st\<lparr>cartTotals := Some (totalsWithCount result (capturedCount p))\<rparr>
      | Rejected e \<Rightarrow> st\<lparr>error := Some (errorMessage_of e)\<rparr>)"

subsection \<open>The synchronous actions\<close>

fun digit_char :: "nat \<Rightarrow> char" where
  "digit_char n = ''0123456789'' ! n"

function toString :: "nat \<Rightarrow> string" where
  "toString n = (if n < 10 then [digit_char n] else toString (n div 10) @ [digit_char (n mod 10)])"
  by pat_completeness auto
termination
  by (relation "measure (\<lambda>n. n)") auto

declare toString.simps [simp del]

text \<open>\<^verbatim>\<open>now\<close> is what \<^verbatim>\<open>Date.now()\<close> returns at the call.\<close>

definition addItem :: "nat \<Rightarrow> CartItem \<Rightarrow> CartState \<Rightarrow> CartState \<times> PendingTotals option" where
  "addItem now itemData st =
     (let newItem = itemData\<lparr>item_id := toString now\<rparr> in
      calculateTotals_begin (st\<lparr>items := items st @ [newItem]\<rparr>))"

definition removeItem :: "string \<Rightarrow> CartState \<Rightarrow> CartState \<times> PendingTotals option" where
  "removeItem itemId st =
     (let st1 = st\<lparr>items := filter (\<lambda>item. item_id item \<noteq> itemId) (items st)\<rparr> in
      if length (items st1) > 0 then calculateTotals_begin st1
      else (st1\<lparr>cartTotals := None\<rparr>, None))"

definition updateItemQuantity ::
  "string \<Rightarrow> real \<Rightarrow> CartState \<Rightarrow> CartState \<times> PendingTotals option" where
  "updateItemQuantity itemId q st =
     calculateTotals_begin
       (st\<lparr>items := map (\<lambda>item. if item_id item = itemId
                                 then item\<lparr>quantity := Some (max 0 q)\<rparr> else item) (items st)\<rparr>)"

definition setAnchorKey :: "string \<Rightarrow> CartState \<Rightarrow> CartState \<times> PendingTotals option" where
  "setAnchorKey key st = calculateTotals_begin (st\<lparr>anchorKey := key\<rparr>)"

definition clearCart :: "CartState \<Rightarrow> CartState" where
  "clearCart st = st\<lparr>items := [], cartTotals := None\<rparr>"

definition setCartTotals :: "CartTotals option \<Rightarrow> CartState \<Rightarrow> CartState" where
  "setCartTotals totals st = st\<lparr>cartTotals := totals\<rparr>"

section \<open>The page (pages/App.tsx)\<close>

subsection \<open>Anchor keys\<close>

definition anchorOptions :: "string list" where
  "anchorOptions = [''protein'', ''fat'', ''fiber'', ''sugar'', ''TotalCarbs'']"

text \<open>
  A \<^typ>\<open>char\<close> of a key stands for a UTF-16 code unit below 256. \<^verbatim>\<open>toLowerCase\<close> changes
  exactly the capital letters among them: A to Z, and U+00C0 to U+00DE without the
  multiplication sign U+00D7; each goes 32 code units up.
\<close>

definition upperLetters :: string where
  "upperLetters = ''ABCDEFGHIJKLMNOPQRSTUVWXYZ'' @
     [CHR 0xC0, CHR 0xC1, CHR 0xC2, CHR 0xC3, CHR 0xC4, CHR 0xC5, CHR 0xC6, CHR 0xC7,
      CHR 0xC8, CHR 0xC9, CHR 0xCA, CHR 0xCB, CHR 0xCC, CHR 0xCD, CHR 0xCE, CHR 0xCF,
      CHR 0xD0, CHR 0xD1, CHR 0xD2, CHR 0xD3, CHR 0xD4, CHR 0xD5, CHR 0xD6,
      CHR 0xD8, CHR 0xD9, CHR 0xDA, CHR 0xDB, CHR 0xDC, CHR 0xDD, CHR 0xDE]"

definition lowerLetters :: string where
  "lowerLetters = ''abcdefghijklmnopqrstuvwxyz'' @
     [CHR 0xE0, CHR 0xE1, CHR 0xE2, CHR 0xE3, CHR 0xE4, CHR 0xE5, CHR 0xE6, CHR 0xE7,
      CHR 0xE8, CHR 0xE9, CHR 0xEA, CHR 0xEB, CHR 0xEC, CHR 0xED, CHR 0xEE, CHR 0xEF,
      CHR 0xF0, CHR 0xF1, CHR 0xF2, CHR 0xF3, CHR 0xF4, CHR 0xF5, CHR 0xF6,
      CHR 0xF8, CHR 0xF9, CHR 0xFA, CHR 0xFB, CHR 0xFC, CHR 0xFD, CHR 0xFE]"

definition lower_char :: "char \<Rightarrow> char" where
  "lower_char c = (case map_of (zip upperLetters lowerLetters) c of Some l \<Rightarrow> l | None \<Rightarrow> c)"

definition toLowerCase :: "string \<Rightarrow> string" where
  "toLowerCase s = map lower_char s"

definition mapAnchorKeyToApiValue :: "string \<Rightarrow> string" where
  "mapAnchorKeyToApiValue uiAnchorKey =
     (if uiAnchorKey = ''TotalCarbs'' then ''total_carbs'' else toLowerCase uiAnchorKey)"

subsection \<open>Form data and component state\<close>

text \<open>
  A form field is kept as what \<^verbatim>\<open>Number(field)\<close> reads from it: \<open>None\<close> for the empty text
  (or a text that is no numeral), where \<^verbatim>\<open>Number(field) || 0\<close> is \<open>0\<close>.
\<close>

type_synonym field = "real option"

definition numberOr0 :: "field \<Rightarrow> real" where
  "numberOr0 f = js_or_opt f 0"

record NutritionData =
  itemName :: string
  proteinField :: field
  fatField :: field
  totalCarbsField :: field
  fiberField :: field
  sugarField :: field

record OcrData = NutritionData +
  servings :: "real option"

record AppState =
  individualItemScore :: "real option"
  isCalculatingItem :: bool
  calculationItemError :: "string option"
  isLookingUp :: bool
  lookupError :: "string option"
  capturedImage :: "string option"
  isProcessingOcr :: bool
  ocrError :: "string option"
  ocrResultData :: "OcrData option"
  individualBalancedMacros :: "MacroNutrients option"
  isFetchingIndividualBalance :: bool
  singleItemAnchorKey :: string

text \<open>A reply of the scoring call as the page reads it: thrown, not \<^verbatim>\<open>ok\<close> (with the
  \<^verbatim>\<open>errorDetail\<close> text the page builds from the body), or a parsed body.\<close>

datatype 'a http = Threw thrown | NotOk string | Ok 'a

definition message_or :: "thrown \<Rightarrow> string \<Rightarrow> string" where
  "message_or e d = (case e of ErrorObj m \<Rightarrow> (if m = [] then d else m) | NonError \<Rightarrow> d)"

subsection \<open>calculateIndividualScore, split at its \<^verbatim>\<open>await\<close>\<close>

definition individualMacros :: "'a NutritionData_scheme \<Rightarrow> MacroNutrients" where
  "individualMacros input =
     \<lparr>protein = numberOr0 (proteinField input), fat = numberOr0 (fatField input),
      total_carbs = numberOr0 (totalCarbsField input), fiber = numberOr0 (fiberField input),
      sugar = numberOr0 (sugarField input)\<rparr>"

text \<open>\<^verbatim>\<open>anchorKey\<close> is the cart store's anchor key, which the page destructures from the store.\<close>

definition calculateIndividualScore_begin ::
  "string \<Rightarrow> 'a NutritionData_scheme \<Rightarrow> AppState \<Rightarrow> AppState \<times> CalculationRequest" where
  "calculateIndividualScore_begin anchorKey' nutritionInput st =
     (st\<lparr>isCalculatingItem := True, individualItemScore := None, calculationItemError := None\<rparr>,
      \<lparr>aggregated_input_data = individualMacros nutritionInput, anchor_id = anchorKey'\<rparr>)"

definition calculateIndividualScore_catch :: "thrown \<Rightarrow> AppState \<Rightarrow> AppState" where
  "calculateIndividualScore_catch err st =
     st\<lparr>calculationItemError :=
          Some (message_or err ''An unexpected error occurred during calculation.''),
        individualItemScore := None\<rparr>"

definition calculateIndividualScore_settle ::
  "CastleVerdeIndexResponse http \<Rightarrow> AppState \<Rightarrow> AppState" where
  "calculateIndividualScore_settle reply st =
     (let st1 = (case reply of
                   Ok resultData \<Rightarrow> st\<lparr>individualItemScore := predicted_spike resultData\<rparr>
                 | NotOk errorDetail \<Rightarrow> calculateIndividualScore_catch (ErrorObj errorDetail) st
                 | Threw err \<Rightarrow> calculateIndividualScore_catch err st)
      in st1\<lparr>isCalculatingItem := False\<rparr>)"

subsection \<open>The balanced-macro effect\<close>

definition fetchIndividualBalancedMacros_begin ::
  "AppState \<Rightarrow> AppState \<times> CalculationRequest option" where
  "fetchIndividualBalancedMacros_begin st =
     (case ocrResultData st of
        Some d \<Rightarrow>
          if individualItemScore st \<noteq> None \<and> \<not> isCalculatingItem st \<and> singleItemAnchorKey st \<noteq> []
          then (st\<lparr>isFetchingIndividualBalance := True, individualBalancedMacros := None\<rparr>,
                Some \<lparr>aggregated_input_data = individualMacros d,
                      anchor_id = mapAnchorKeyToApiValue (singleItemAnchorKey st)\<rparr>)
          else (st\<lparr>individualBalancedMacros := None\<rparr>, None)
      | None \<Rightarrow> (st\<lparr>individualBalancedMacros := None\<rparr>, None))"

definition fetchIndividualBalancedMacros_settle ::
  "CastleVerdeIndexResponse http \<Rightarrow> AppState \<Rightarrow> AppState" where
  "fetchIndividualBalancedMacros_settle reply st =
     (let st1 = (case reply of
                   Ok resultData \<Rightarrow> st\<lparr>individualBalancedMacros := balanced_macros resultData\<rparr>
                 | NotOk errorDetail \<Rightarrow> st\<lparr>individualBalancedMacros := None\<rparr>
                 | Threw err \<Rightarrow> st\<lparr>individualBalancedMacros := None\<rparr>)
      in st1\<lparr>isFetchingIndividualBalance := False\<rparr>)"

subsection \<open>Flow A: processCapturedImage\<close>






subsection \<open>Flow B: handleAutoFillRequest\<close>

text \<open>
  The item name is a list of UTF-16 code units. \<^verbatim>\<open>trim\<close> strips the white space and the line
  terminators of ECMAScript from both ends: tab, line feed, vertical tab, form feed,
  carriage return, space, no-break space, U+1680, U+2000 to U+200A, the line and paragraph
  separators, U+202F, U+205F, U+3000 and the byte order mark U+FEFF.
\<close>

type_synonym code_units = "16 word list"

definition whiteSpaceUnits :: code_units where
  "whiteSpaceUnits =
     [0x0009, 0x000A, 0x000B, 0x000C, 0x000D, 0x0020, 0x00A0, 0x1680,
      0x2000, 0x2001, 0x2002, 0x2003, 0x2004, 0x2005, 0x2006, 0x2007, 0x2008, 0x2009, 0x200A,
      0x2028, 0x2029, 0x202F, 0x205F, 0x3000, 0xFEFF]"

definition isWhitespace :: "16 word \<Rightarrow> bool" where
  "isWhitespace c = (c \<in> set whiteSpaceUnits)"

definition trim :: "code_units \<Rightarrow> code_units" where
  "trim s = rev (dropWhile isWhitespace (rev (dropWhile isWhitespace s)))"


record ExtractedMacrosResponse =
  lk_protein :: field
  lk_fat :: field
  lk_total_carbs :: field
  lk_sugar :: field
  lk_fiber :: field



subsection \<open>What the page shows of the cart error\<close>

text \<open>
  The analysis card is rendered under \<^verbatim>\<open>items.length > 0 && cartTotals && cartTotals.input_data\<close>
  and the alert inside it under \<^verbatim>\<open>cartError &&\<close>; the page reads the store's error nowhere
  else. \<open>input_data\<close> is an object and so truthy whenever there are totals.
\<close>

definition shownCartError :: "CartState \<Rightarrow> string option" where
  "shownCartError st =
     (if length (items st) > 0 \<and> cartTotals st \<noteq> None
      then (case error st of None \<Rightarrow> None | Some m \<Rightarrow> if m = [] then None else Some m)
      else None)"

section \<open>The gauge (components/CastleVerdeIndexGauge)\<close>

definition MAX_SCORE :: real where "MAX_SCORE = 50"
definition MIN_SCORE :: real where "MIN_SCORE = 0"

record ZoneLabel =
  label :: string
  color :: string

record Zone = ZoneLabel +
  zrange :: "real \<times> real"

definition zones :: "Zone list" where
  "zones =
     [\<lparr>label = ''Low'', color = ''#2ECC71'', zrange = (0, 14.9)\<rparr>,
      \<lparr>label = ''Caution'', color = ''#F4D03F'', zrange = (15, 24.9)\<rparr>,
      \<lparr>label = ''Dangerous'', color = ''#F5B041'', zrange = (25, 34.9)\<rparr>,
      \<lparr>label = ''Red Zone'', color = ''#E74C3C'', zrange = (35, 50)\<rparr>]"

definition notAvailable :: ZoneLabel where
  "notAvailable = \<lparr>label = ''N/A'', color = ''#6b7280''\<rparr>"

definition labelOf :: "Zone \<Rightarrow> ZoneLabel" where
  "labelOf z = \<lparr>label = label z, color = color z\<rparr>"

text \<open>The \<^verbatim>\<open>for\<close> loop of getZone: the first zone whose closed range holds the score.\<close>

fun firstZone :: "Zone list \<Rightarrow> real \<Rightarrow> Zone option" where
  "firstZone [] score = None"
| "firstZone (z # zs) score =
     (if score \<ge> fst (zrange z) \<and> score \<le> snd (zrange z) then Some z else firstZone zs score)"

definition getZone :: "real option \<Rightarrow> ZoneLabel" where
  "getZone score =
     (case score of
        None \<Rightarrow> notAvailable
      | Some s \<Rightarrow>
          (case firstZone zones s of
             Some z \<Rightarrow> labelOf z
           | None \<Rightarrow> if s > snd (zrange (last zones)) then labelOf (last zones) else notAvailable))"

subsection \<open>The needle animation\<close>

record GaugeState =
  animatedScore :: "real option"
  isInitialRender :: bool









definition clampedScore :: "GaugeState \<Rightarrow> real" where
  "clampedScore st =
     (case animatedScore st of None \<Rightarrow> MIN_SCORE | Some a \<Rightarrow> max MIN_SCORE (min a MAX_SCORE))"

definition acvScore :: "GaugeState \<Rightarrow> real" where
  "acvScore st = clampedScore st * 0.75"

section \<open>Sequences of replies, and example data\<close>

text \<open>The share of one item in one component of the aggregate.\<close>

definition contribution :: "(MacroNutrients \<Rightarrow> real) \<Rightarrow> CartItem \<Rightarrow> real" where
  "contribution f item = macro_of f item * js_or_opt (quantity item) 1"

text \<open>Replies of cart scoring calls, applied to the store in the order they arrive.\<close>

definition settleAll ::
  "(PendingTotals \<times> CastleVerdeIndexResponse outcome) list \<Rightarrow> CartState \<Rightarrow> CartState" where
  "settleAll arrivals st = foldl (\<lambda>s (p, reply). calculateTotals_settle p reply s) st arrivals"

definition itemA :: CartItem where
  "itemA = \<lparr>item_id = ''1'', name = ''A'',
            macros = Some \<lparr>protein = 10, fat = 5, total_carbs = 20, fiber = 2, sugar = 5\<rparr>,
            quantity = Some 1\<rparr>"

definition itemB :: CartItem where
  "itemB = \<lparr>item_id = ''2'', name = ''B'',
            macros = Some \<lparr>protein = 5, fat = 2, total_carbs = 10, fiber = 1, sugar = 2\<rparr>,
            quantity = Some 2\<rparr>"

definition itemZero :: CartItem where
  "itemZero = itemA\<lparr>quantity := Some 0\<rparr>"

definition cartAB :: CartState where
  "cartAB = initialCartState\<lparr>items := [itemA, itemB]\<rparr>"

definition replyWith :: "real \<Rightarrow> CastleVerdeIndexResponse" where
  "replyWith spike =
     \<lparr>predicted_spike = Some spike, input_data = zeroMacros, balanced_macros = None,
      base_ratio = 1, tier_label = ''Caution'', tier_color = ''yellow''\<rparr>"

text \<open>Two anchor changes in a row on the cart of \<open>itemA\<close> and \<open>itemB\<close>, and their requests.\<close>

definition firstTrigger :: "CartState \<times> PendingTotals option" where
  "firstTrigger = setAnchorKey ''fat'' cartAB"

definition secondTrigger :: "CartState \<times> PendingTotals option" where
  "secondTrigger = setAnchorKey ''protein'' (fst firstTrigger)"

definition pendingFor :: "string \<Rightarrow> PendingTotals" where
  "pendingFor key =
     \<lparr>requestBody = \<lparr>aggregated_input_data = aggregate_double [itemA, itemB], anchor_id = key\<rparr>,
      capturedCount = 2\<rparr>"

definition draftA :: OcrData where
  "draftA = \<lparr>itemName = ''Scanned Item'', proteinField = Some 10, fatField = Some 5,
             totalCarbsField = Some 20, fiberField = Some 2, sugarField = Some 5,
             servings = Some 2\<rparr>"

text \<open>The page with a scanned draft in the form and its score on the gauge.\<close>

definition appScored :: AppState where
  "appScored =
     \<lparr>individualItemScore = Some 20, isCalculatingItem = False, calculationItemError = None,
      isLookingUp = False, lookupError = None, capturedImage = None, isProcessingOcr = False,
      ocrError = None, ocrResultData = Some draftA, individualBalancedMacros = None,
      isFetchingIndividualBalance = False, singleItemAnchorKey = ''protein''\<rparr>"

text \<open>Three items of 0.1, 0.2 and 0.3 grams of protein, as the doubles nearest to them.\<close>

definition proteinOnly :: "string \<Rightarrow> real \<Rightarrow> CartItem" where
  "proteinOnly i p =
     \<lparr>item_id = i, name = ''P'',
      macros = Some \<lparr>protein = p, fat = 0, total_carbs = 0, fiber = 0, sugar = 0\<rparr>,
      quantity = Some 1\<rparr>"

definition itemTenth :: CartItem where
  "itemTenth = proteinOnly ''3'' (3602879701896397 / 36028797018963968)"

definition itemFifth :: CartItem where
  "itemFifth = proteinOnly ''4'' (3602879701896397 / 18014398509481984)"

definition itemThreeTenths :: CartItem where
  "itemThreeTenths = proteinOnly ''5'' (5404319552844595 / 18014398509481984)"

text \<open>The nutrient components, and a cart whose shares are whole numbers with sums below \<open>2^53\<close>.\<close>

definition components :: "(MacroNutrients \<Rightarrow> real) list" where
  "components = [protein, fat, total_carbs, fiber, sugar]"

definition wholeCart :: "CartItem list \<Rightarrow> bool" where
  "wholeCart its =
     (\<forall>f \<in> set components.
        (\<forall>item \<in> set its. contribution f item \<in> \<nat>) \<and> (\<Sum>item\<leftarrow>its. contribution f item) < 2 ^ 53)"

text \<open>A cart whose last scoring call threw after an earlier one had resolved.\<close>

definition cartWithError :: CartState where
  "cartWithError =
     calculateTotals_settle (pendingFor ''protein'') (Rejected (ErrorObj ''Failed to fetch''))
       (calculateTotals_settle (pendingFor ''protein'') (Resolved (replyWith 30)) cartAB)"

text \<open>The names \<^verbatim>\<open>apple\<close> and, blank, a space followed by a no-break space.\<close>

definition nameApple :: code_units where
  "nameApple = [0x61, 0x70, 0x70, 0x6C, 0x65]"





text \<open>One step of one component of the reduce in double arithmetic.\<close>

definition dstep :: "(MacroNutrients \<Rightarrow> real) \<Rightarrow> real \<Rightarrow> CartItem \<Rightarrow> real" where
  "dstep f a item = round_double (a + round_double (contribution f item))"


section \<open>Auxiliary facts\<close>

lemma contribution_explicit:
  "contribution f item =
     (case macros item of None \<Rightarrow> 0 | Some m \<Rightarrow> f m)
     * (case quantity item of None \<Rightarrow> 1 | Some q \<Rightarrow> if q = 0 then 1 else q)"
  by (simp add: contribution_def macro_of_def js_or_def split: option.splits)

lemma foldl_reducer:
  "foldl reducer acc its =
     \<lparr>protein = protein acc + (\<Sum>item\<leftarrow>its. contribution protein item),
      fat = fat acc + (\<Sum>item\<leftarrow>its. contribution fat item),
      total_carbs = total_carbs acc + (\<Sum>item\<leftarrow>its. contribution total_carbs item),
      fiber = fiber acc + (\<Sum>item\<leftarrow>its. contribution fiber item),
      sugar = sugar acc + (\<Sum>item\<leftarrow>its. contribution sugar item)\<rparr>"
proof (induction its arbitrary: acc)
  case Nil
  show ?case by simp
next
  case (Cons item its)
  have step: "foldl reducer acc (item # its) = foldl reducer (reducer acc item) its"
    by simp
  show ?case
    unfolding step Cons.IH
    by (simp add: reducer_def Let_def contribution_def [symmetric])
qed

lemma aggregate_sums:
  "aggregate its =
     \<lparr>protein = (\<Sum>item\<leftarrow>its. contribution protein item),
      fat = (\<Sum>item\<leftarrow>its. contribution fat item),
      total_carbs = (\<Sum>item\<leftarrow>its. contribution total_carbs item),
      fiber = (\<Sum>item\<leftarrow>its. contribution fiber item),
      sugar = (\<Sum>item\<leftarrow>its. contribution sugar item)\<rparr>"
  by (simp add: aggregate_def foldl_reducer zeroMacros_def)

lemma sum_list_perm:
  fixes f :: "'a \<Rightarrow> real"
  assumes "mset ys = mset xs"
  shows "(\<Sum>x\<leftarrow>ys. f x) = (\<Sum>x\<leftarrow>xs. f x)"
proof -
  have "sum_mset (image_mset f (mset ys)) = sum_mset (image_mset f (mset xs))"
    using assms by simp
  then show ?thesis
    by (simp only: mset_map [symmetric] sum_mset_sum_list)
qed

lemma begin_items: "items (fst (calculateTotals_begin st)) = items st"
  by (simp add: calculateTotals_begin_def Let_def)

lemma addItem_keeps_items:
  "items (fst (addItem now itemData st)) = items st @ [itemData\<lparr>item_id := toString now\<rparr>]"
  by (simp add: addItem_def begin_items Let_def)

lemma digit_char_inj:
  assumes "a < 10" "b < 10" "digit_char a = digit_char b"
  shows "a = b"
proof -
  have d: "distinct ''0123456789''" by simp
  have l: "length ''0123456789'' = 10" by simp
  from assms d l show ?thesis
    by (simp add: nth_eq_iff_index_eq del: distinct.simps)
qed

lemma toString_nonempty: "toString n \<noteq> []"
  by (subst toString.simps) simp

lemma toString_single: "toString n = [c] \<Longrightarrow> n < 10"
  by (subst (asm) toString.simps) (simp add: toString_nonempty split: if_splits)

lemma toString_inj: "toString m = toString n \<Longrightarrow> m = n"
proof (induction m arbitrary: n rule: toString.induct)
  case (1 m)
  show ?case
  proof (cases "m < 10")
    case True
    then have m: "toString m = [digit_char m]" by (subst toString.simps) simp
    with "1.prems" have "toString n = [digit_char m]" by simp
    then have n: "n < 10" by (rule toString_single)
    then have "toString n = [digit_char n]" by (subst toString.simps) simp
    with m "1.prems" have "digit_char m = digit_char n" by simp
    with True n show ?thesis by (rule digit_char_inj)
  next
    case False
    then have m: "toString m = toString (m div 10) @ [digit_char (m mod 10)]"
      by (subst toString.simps) simp
    have n10: "\<not> n < 10"
    proof
      assume "n < 10"
      then have "toString n = [digit_char n]" by (subst toString.simps) simp
      with "1.prems" have "toString m = [digit_char n]" by simp
      then have "m < 10" by (rule toString_single)
      with False show False by simp
    qed
    then have n: "toString n = toString (n div 10) @ [digit_char (n mod 10)]"
      by (subst toString.simps) simp
    from m n "1.prems" have eq: "toString (m div 10) = toString (n div 10)"
      and dg: "digit_char (m mod 10) = digit_char (n mod 10)" by simp_all
    from "1.IH" [OF False eq] have q: "m div 10 = n div 10" .
    have "m mod 10 = n mod 10"
      by (rule digit_char_inj [OF _ _ dg]) simp_all
    with q show ?thesis by (metis div_mult_mod_eq)
  qed
qed

lemma addItem_distinct_if_new_time:
  assumes "distinct (map item_id (items st))" "toString now \<notin> item_id ` set (items st)"
  shows "distinct (map item_id (items (fst (addItem now itemData st))))"
  using assms by (simp add: addItem_def begin_items Let_def)

lemma removeItem_items:
  "items (fst (removeItem itemId st)) = filter (\<lambda>item. item_id item \<noteq> itemId) (items st)"
  by (simp add: removeItem_def begin_items Let_def)

lemma updateItemQuantity_ids:
  "map item_id (items (fst (updateItemQuantity itemId q st))) = map item_id (items st)"
  by (simp add: updateItemQuantity_def begin_items comp_def if_distrib cong: if_cong)

lemma aggregate_AB:
  "aggregate [itemA, itemB] = \<lparr>protein = 20, fat = 9, total_carbs = 40, fiber = 4, sugar = 9\<rparr>"
  by (simp add: aggregate_def reducer_def macro_of_def js_or_def zeroMacros_def itemA_def itemB_def)

lemma firstTrigger_eq: "firstTrigger = (cartAB\<lparr>anchorKey := ''fat''\<rparr>, Some (pendingFor ''fat''))"
  by (simp add: firstTrigger_def setAnchorKey_def calculateTotals_begin_def Let_def cartAB_def
      initialCartState_def pendingFor_def)

lemma secondTrigger_eq: "secondTrigger = (cartAB, Some (pendingFor ''protein''))"
  by (simp add: secondTrigger_def firstTrigger_eq setAnchorKey_def calculateTotals_begin_def
      Let_def cartAB_def initialCartState_def pendingFor_def)

lemma mapAnchorKeyToApiValue_options:
  "map mapAnchorKeyToApiValue anchorOptions = [''protein'', ''fat'', ''fiber'', ''sugar'', ''total_carbs'']"
  by (simp add: anchorOptions_def mapAnchorKeyToApiValue_def toLowerCase_def lower_char_def
      upperLetters_def lowerLetters_def)

lemma getZone_cases:
  "getZone (Some s) =
     (if 0 \<le> s \<and> s \<le> 14.9 then \<lparr>label = ''Low'', color = ''#2ECC71''\<rparr>
      else if 15 \<le> s \<and> s \<le> 24.9 then \<lparr>label = ''Caution'', color = ''#F4D03F''\<rparr>
      else if 25 \<le> s \<and> s \<le> 34.9 then \<lparr>label = ''Dangerous'', color = ''#F5B041''\<rparr>
      else if 35 \<le> s then \<lparr>label = ''Red Zone'', color = ''#E74C3C''\<rparr>
      else notAvailable)"
  by (simp add: getZone_def zones_def labelOf_def)

lemma getZone_null: "getZone None = notAvailable"
  by (simp add: getZone_def)

subsection \<open>Rounding to a double\<close>

lemma binade_up_spec:
  "1 \<le> x \<Longrightarrow> 0 \<le> binade_up x \<and> 2 ^ nat (binade_up x) \<le> x \<and> x < 2 * 2 ^ nat (binade_up x)"
proof (induction x rule: binade_up.induct)
  case (1 x)
  show ?case
  proof (cases "x < 2")
    case True
    with "1.prems" show ?thesis by (subst (1 2 3) binade_up.simps) simp
  next
    case False
    then have "1 \<le> x / 2" by simp
    from "1.IH" [OF False this]
    have ih: "0 \<le> binade_up (x / 2)" "2 ^ nat (binade_up (x / 2)) \<le> x / 2"
      "x / 2 < 2 * 2 ^ nat (binade_up (x / 2))" by simp_all
    have up: "binade_up x = binade_up (x / 2) + 1"
      using False by (subst binade_up.simps) simp
    from ih(1) have n: "nat (binade_up (x / 2) + 1) = Suc (nat (binade_up (x / 2)))" by simp
    from ih show ?thesis unfolding up n by simp
  qed
qed

lemma round_half_even_of_int: "round_half_even (of_int n) = n"
  by (simp add: round_half_even_def)

lemma round_double_of_nat:
  assumes "n < 2 ^ 53"
  shows "round_double (of_nat n) = of_nat n"
proof (cases "n = 0")
  case True
  then show ?thesis by (simp add: round_double_def)
next
  case False
  define x :: real where "x = of_nat n"
  from False have x1: "1 \<le> x" by (simp add: x_def)
  define k where "k = nat (binade_up x)"
  from binade_up_spec [OF x1] have b: "0 \<le> binade_up x" "2 ^ k \<le> x" by (simp_all add: k_def)
  from assms have "x < 2 ^ 53" unfolding x_def
    by (metis of_nat_less_iff of_nat_numeral of_nat_power)
  with b(2) have "(2::real) ^ k < 2 ^ 53" by linarith
  have two: "(1::real) < 2" by simp
  from two \<open>(2::real) ^ k < 2 ^ 53\<close> have k: "k < 53" by (rule power_less_imp_less_exp)
  have bin: "binade \<bar>x\<bar> = int k" using x1 b(1) by (simp add: binade_def k_def)
  have ulp: "pow2 (binade \<bar>x\<bar> - 52) = 1 / 2 ^ (52 - k)"
  proof (cases "k = 52")
    case True
    then show ?thesis by (simp add: bin pow2_def)
  next
    case False
    with k have "k < 52" by simp
    then have "nat (52 - int k) = 52 - k" by simp
    with \<open>k < 52\<close> show ?thesis by (simp add: bin pow2_def)
  qed
  have scaled: "x / (1 / 2 ^ (52 - k)) = of_int (int n * 2 ^ (52 - k))"
    by (simp add: x_def)
  from x1 have nz: "x \<noteq> 0" by simp
  have "round_double x = of_int (round_half_even (x / (1 / 2 ^ (52 - k)))) * (1 / 2 ^ (52 - k))"
    using nz by (simp add: round_double_def ulp Let_def)
  also have "\<dots> = of_int (int n * 2 ^ (52 - k)) * (1 / 2 ^ (52 - k))"
    unfolding scaled round_half_even_of_int ..
  also have "\<dots> = x" by (simp add: x_def)
  finally show ?thesis by (simp add: x_def)
qed

lemma round_double_Nats:
  assumes "x \<in> \<nat>" "x < 2 ^ 53"
  shows "round_double x = x"
proof -
  from assms(1) obtain n where x: "x = of_nat n" by (rule Nats_cases)
  with assms(2) have "(of_nat n :: real) < of_nat (2 ^ 53)" by simp
  then have "n < 2 ^ 53" by (simp only: of_nat_less_iff)
  then show ?thesis unfolding x by (rule round_double_of_nat)
qed

lemma foldl_reducer_double:
  "foldl reducer_double acc its =
     \<lparr>protein = foldl (dstep protein) (protein acc) its,
      fat = foldl (dstep fat) (fat acc) its,
      total_carbs = foldl (dstep total_carbs) (total_carbs acc) its,
      fiber = foldl (dstep fiber) (fiber acc) its,
      sugar = foldl (dstep sugar) (sugar acc) its\<rparr>"
proof (induction its arbitrary: acc)
  case Nil
  show ?case by simp
next
  case (Cons item its)
  have step: "foldl reducer_double acc (item # its) = foldl reducer_double (reducer_double acc item) its"
    by simp
  show ?case
    unfolding step Cons.IH
    by (simp add: reducer_double_def Let_def contribution_def [symmetric] dstep_def [symmetric])
qed

lemma foldl_dstep_exact:
  assumes "\<forall>item \<in> set its. contribution f item \<in> \<nat>"
    and "a \<in> \<nat>"
    and "a + (\<Sum>item\<leftarrow>its. contribution f item) < 2 ^ 53"
  shows "foldl (dstep f) a its = a + (\<Sum>item\<leftarrow>its. contribution f item)"
  using assms
proof (induction its arbitrary: a)
  case Nil
  show ?case by simp
next
  case (Cons item its)
  define c where "c = contribution f item"
  define r where "r = (\<Sum>item\<leftarrow>its. contribution f item)"
  from Cons.prems(1) have cN: "c \<in> \<nat>" and restN: "\<forall>i \<in> set its. contribution f i \<in> \<nat>"
    by (simp_all add: c_def)
  from restN have "r \<in> \<nat>" unfolding r_def
    by (induction its) (simp_all add: Nats_add)
  then have r0: "0 \<le> r" by (rule Nats_cases) simp
  from cN have c0: "0 \<le> c" by (rule Nats_cases) simp
  from Cons.prems(2) have a0: "0 \<le> a" by (rule Nats_cases) simp
  from Cons.prems(3) have bound: "a + (c + r) < 2 ^ 53" by (simp add: c_def r_def)
  from bound a0 r0 have "c < 2 ^ 53" by linarith
  with cN have rc: "round_double c = c" by (rule round_double_Nats)
  from Cons.prems(2) cN have acN: "a + c \<in> \<nat>" by (rule Nats_add)
  from bound r0 have "a + c < 2 ^ 53" by linarith
  with acN have rac: "round_double (a + c) = a + c" by (rule round_double_Nats)
  have step: "dstep f a item = a + c" by (simp add: dstep_def c_def [symmetric] rc rac)
  from bound have bound': "a + c + r < 2 ^ 53" by (simp add: add.assoc)
  have "foldl (dstep f) (a + c) its = a + c + r"
    unfolding r_def using restN acN bound' [unfolded r_def] by (rule Cons.IH)
  then show ?case by (simp add: step c_def r_def add.assoc)
qed

lemma aggregate_double_whole:
  assumes "wholeCart its"
  shows "aggregate_double its = aggregate its"
proof -
  have one: "foldl (dstep f) 0 its = (\<Sum>item\<leftarrow>its. contribution f item)" if "f \<in> set components" for f
  proof -
    from assms that have "\<forall>item \<in> set its. contribution f item \<in> \<nat>"
      and "(\<Sum>item\<leftarrow>its. contribution f item) < 2 ^ 53"
      by (simp_all add: wholeCart_def)
    then have "foldl (dstep f) 0 its = 0 + (\<Sum>item\<leftarrow>its. contribution f item)"
      by (intro foldl_dstep_exact) simp_all
    then show ?thesis by simp
  qed
  show ?thesis
    by (simp add: aggregate_double_def foldl_reducer_double zeroMacros_def aggregate_sums
        one components_def)
qed

lemma wholeCart_perm:
  assumes "mset ys = mset xs"
  shows "wholeCart ys = wholeCart xs"
proof -
  from assms have "set ys = set xs" by (rule mset_eq_setD)
  then show ?thesis
    by (simp add: wholeCart_def sum_list_perm [OF assms])
qed

lemma wholeCart_AB: "wholeCart [itemA, itemB]"
  by (simp add: wholeCart_def components_def contribution_explicit itemA_def itemB_def)

lemma aggregate_double_AB:
  "aggregate_double [itemA, itemB] = \<lparr>protein = 20, fat = 9, total_carbs = 40, fiber = 4, sugar = 9\<rparr>"
  by (simp add: aggregate_double_whole wholeCart_AB aggregate_AB)

lemmas rd_eval = round_double_def binade_def binade_down.simps binade_up.simps pow2_def
  round_half_even_def Let_def

lemma literal_doubles:
  "round_double (1 / 10) = 3602879701896397 / 36028797018963968"
  "round_double (2 / 10) = 3602879701896397 / 18014398509481984"
  "round_double (3 / 10) = 5404319552844595 / 18014398509481984"
  by (simp_all add: rd_eval)

lemma forward_sum:
  "protein (aggregate_double [itemTenth, itemFifth, itemThreeTenths])
     = 1351079888211149 / 2251799813685248"
  by (simp add: aggregate_double_def reducer_double_def zeroMacros_def macro_of_def js_or_def
      itemTenth_def itemFifth_def itemThreeTenths_def proteinOnly_def rd_eval)

lemma backward_sum:
  "protein (aggregate_double [itemThreeTenths, itemFifth, itemTenth])
     = 5404319552844595 / 9007199254740992"
  by (simp add: aggregate_double_def reducer_double_def zeroMacros_def macro_of_def js_or_def
      itemTenth_def itemFifth_def itemThreeTenths_def proteinOnly_def rd_eval)

lemma wholeCart_itemZero: "wholeCart [itemZero]"
  by (simp add: wholeCart_def components_def contribution_explicit itemZero_def itemA_def)

lemma aggregate_double_itemZero:
  "aggregate_double [itemZero] = \<lparr>protein = 10, fat = 5, total_carbs = 20, fiber = 2, sugar = 5\<rparr>"
proof -
  have "aggregate_double [itemZero] = aggregate [itemZero]"
    using wholeCart_itemZero by (rule aggregate_double_whole)
  also have "\<dots> = \<lparr>protein = 10, fat = 5, total_carbs = 20, fiber = 2, sugar = 5\<rparr>"
    by (simp add: aggregate_def reducer_def macro_of_def js_or_def zeroMacros_def itemZero_def
        itemA_def)
  finally show ?thesis .
qed

lemma begin_request:
  "items st \<noteq> [] \<Longrightarrow>
     snd (calculateTotals_begin st)
       = Some \<lparr>requestBody = \<lparr>aggregated_input_data = aggregate_double (items st),
                              anchor_id = anchorKey st\<rparr>,
               capturedCount = length (items st)\<rparr>"
  by (simp add: calculateTotals_begin_def Let_def)

lemma begin_again:
  "snd (calculateTotals_begin (fst (calculateTotals_begin st))) = snd (calculateTotals_begin st)"
  by (simp add: calculateTotals_begin_def Let_def)

subsection \<open>The page and the gauge\<close>

lemma trim_apple: "trim nameApple = nameApple"
  by (simp add: trim_def nameApple_def isWhitespace_def whiteSpaceUnits_def)



lemma calculateIndividualScore_begin_resets:
  "individualItemScore (fst (calculateIndividualScore_begin key input st)) = None
   \<and> calculationItemError (fst (calculateIndividualScore_begin key input st)) = None
   \<and> isCalculatingItem (fst (calculateIndividualScore_begin key input st))"
  by (simp add: calculateIndividualScore_begin_def)

lemma cartWithError_eq:
  "cartWithError = cartAB\<lparr>cartTotals := Some (totalsWithCount (replyWith 30) 2),
                          error := Some ''Failed to fetch''\<rparr>"
  by (simp add: cartWithError_def calculateTotals_settle_def pendingFor_def errorMessage_of_def)













section \<open>Results\<close>

subsection \<open>Anchor identifiers on the wire\<close>

text \<open>
  C1. Every scoring request should carry the lower-cased snake-case form of the selected
  anchor key, so that \<^verbatim>\<open>TotalCarbs\<close> travels as \<^verbatim>\<open>total_carbs\<close>. Only the balanced-macro
  effect calls mapAnchorKeyToApiValue. With \<^verbatim>\<open>TotalCarbs\<close> selected for the cart, the
  cart request and the single-item request both carry the key as it is.
\<close>

theorem cart_request_sends_raw_anchor:
  "snd (setAnchorKey ''TotalCarbs'' cartAB) = Some (pendingFor ''TotalCarbs'')
   \<and> anchor_id (requestBody (pendingFor ''TotalCarbs'')) = ''TotalCarbs''
   \<and> anchor_id (snd (calculateIndividualScore_begin
                        (anchorKey (fst (setAnchorKey ''TotalCarbs'' cartAB))) draftA appScored))
       = ''TotalCarbs''
   \<and> mapAnchorKeyToApiValue ''TotalCarbs'' = ''total_carbs''
   \<and> map_option anchor_id
        (snd (fetchIndividualBalancedMacros_begin (appScored\<lparr>singleItemAnchorKey := ''TotalCarbs''\<rparr>)))
       = Some ''total_carbs''"
  by (simp add: setAnchorKey_def calculateTotals_begin_def Let_def cartAB_def initialCartState_def
      calculateIndividualScore_begin_def mapAnchorKeyToApiValue_def pendingFor_def
      fetchIndividualBalancedMacros_begin_def appScored_def)

subsection \<open>Failed scoring calls\<close>

text \<open>
  C2, as stated, fails for the single-item target: the gauge shows 20, the scoring call
  comes back with a status that is not \<^verbatim>\<open>ok\<close>, and the score is null afterwards.
\<close>

theorem individual_failure_clears_score:
  "individualItemScore appScored = Some 20
   \<and> individualItemScore
       (calculateIndividualScore_settle (NotOk ''Calculation failed with status: 500'')
          (fst (calculateIndividualScore_begin ''protein'' draftA appScored))) = None"
  by (simp add: appScored_def calculateIndividualScore_settle_def calculateIndividualScore_begin_def
      calculateIndividualScore_catch_def Let_def)

text \<open>
  C2, amended. A cart scoring call that throws leaves \<^verbatim>\<open>cartTotals\<close> as it was (null if
  there was none) and records the message in \<^verbatim>\<open>error\<close>; starting the call keeps
  \<^verbatim>\<open>cartTotals\<close> too unless the cart is empty. A single-item scoring call that fails, by
  throwing or by a reply that is not \<^verbatim>\<open>ok\<close>, leaves the item score null and records the
  message in \<^verbatim>\<open>calculationItemError\<close>.
\<close>

theorem failed_scoring_call:
  "cartTotals (calculateTotals_settle p (Rejected e) st) = cartTotals st
   \<and> error (calculateTotals_settle p (Rejected e) st) = Some (errorMessage_of e)
   \<and> cartTotals (fst (calculateTotals_begin st)) = (if items st = [] then None else cartTotals st)
   \<and> individualItemScore (calculateIndividualScore_settle (Threw e) ast) = None
   \<and> calculationItemError (calculateIndividualScore_settle (Threw e) ast)
       = Some (message_or e ''An unexpected error occurred during calculation.'')
   \<and> individualItemScore (calculateIndividualScore_settle (NotOk d) ast) = None
   \<and> calculationItemError (calculateIndividualScore_settle (NotOk d) ast)
       = Some (message_or (ErrorObj d) ''An unexpected error occurred during calculation.'')"
  by (simp add: calculateTotals_settle_def calculateTotals_begin_def Let_def
      calculateIndividualScore_settle_def calculateIndividualScore_catch_def)

subsection \<open>The zone classifier\<close>

text \<open>
  C3. Every score in the closed interval from 0 to 50 should fall in one of the four tiers.
  The ranges of the table leave gaps between 14.9 and 15, 24.9 and 25, 34.9 and 35: the
  score 14.95 lies between 0 and 50 and getZone answers \<^verbatim>\<open>N/A\<close>.
\<close>

theorem getZone_gap:
  "(0::real) \<le> 14.95 \<and> (14.95::real) \<le> 50 \<and> getZone (Some 14.95) = notAvailable
   \<and> label (getZone (Some 14.95)) = ''N/A''"
  by (simp add: getZone_def zones_def notAvailable_def labelOf_def)

subsection \<open>The aggregate\<close>

text \<open>
  C4, as stated, fails: setting the quantity of the only item of a cart to 0 stores 0, and
  the aggregate still counts the item once, in the exact reading and in double arithmetic.
\<close>

theorem zero_quantity_counts_once:
  "items (fst (updateItemQuantity ''1'' 0 (initialCartState\<lparr>items := [itemA]\<rparr>))) = [itemZero]
   \<and> quantity itemZero = Some 0
   \<and> aggregate [itemZero] = \<lparr>protein = 10, fat = 5, total_carbs = 20, fiber = 2, sugar = 5\<rparr>
   \<and> aggregate [itemZero] \<noteq> aggregate []
   \<and> aggregate_double [itemZero]
       = \<lparr>protein = 10, fat = 5, total_carbs = 20, fiber = 2, sugar = 5\<rparr>
   \<and> aggregate_double [itemZero] \<noteq> aggregate_double []"
proof -
  have "items (fst (updateItemQuantity ''1'' 0 (initialCartState\<lparr>items := [itemA]\<rparr>))) = [itemZero]
     \<and> quantity itemZero = Some 0
     \<and> aggregate [itemZero] = \<lparr>protein = 10, fat = 5, total_carbs = 20, fiber = 2, sugar = 5\<rparr>
     \<and> aggregate [itemZero] \<noteq> aggregate []"
    by (simp add: aggregate_def reducer_def macro_of_def js_or_def zeroMacros_def itemZero_def
        itemA_def updateItemQuantity_def begin_items initialCartState_def)
  moreover have "aggregate_double [itemZero] \<noteq> aggregate_double []"
    by (simp add: aggregate_double_itemZero) (simp add: aggregate_double_def zeroMacros_def)
  ultimately show ?thesis
    using aggregate_double_itemZero by blast
qed

text \<open>
  C4, amended. The aggregate is the component-wise sum over the items of the nutrient vector
  (zero when the item has none) times the quantity, where a quantity that is missing or 0
  counts as 1; updateItemQuantity stores the maximum of 0 and the requested quantity in the
  item with the given id and leaves the other items as they are. What the store sends is
  this sum in double arithmetic: from left to right, every product and every sum rounded.
\<close>

theorem aggregate_effective_quantity:
  "aggregate its =
     \<lparr>protein = (\<Sum>item\<leftarrow>its. (case macros item of None \<Rightarrow> 0 | Some m \<Rightarrow> protein m)
                   * (case quantity item of None \<Rightarrow> 1 | Some q \<Rightarrow> if q = 0 then 1 else q)),
      fat = (\<Sum>item\<leftarrow>its. (case macros item of None \<Rightarrow> 0 | Some m \<Rightarrow> fat m)
                   * (case quantity item of None \<Rightarrow> 1 | Some q \<Rightarrow> if q = 0 then 1 else q)),
      total_carbs = (\<Sum>item\<leftarrow>its. (case macros item of None \<Rightarrow> 0 | Some m \<Rightarrow> total_carbs m)
                   * (case quantity item of None \<Rightarrow> 1 | Some q \<Rightarrow> if q = 0 then 1 else q)),
      fiber = (\<Sum>item\<leftarrow>its. (case macros item of None \<Rightarrow> 0 | Some m \<Rightarrow> fiber m)
                   * (case quantity item of None \<Rightarrow> 1 | Some q \<Rightarrow> if q = 0 then 1 else q)),
      sugar = (\<Sum>item\<leftarrow>its. (case macros item of None \<Rightarrow> 0 | Some m \<Rightarrow> sugar m)
                   * (case quantity item of None \<Rightarrow> 1 | Some q \<Rightarrow> if q = 0 then 1 else q))\<rparr>
   \<and> items (fst (updateItemQuantity itemId q st))
       = map (\<lambda>item. if item_id item = itemId then item\<lparr>quantity := Some (max 0 q)\<rparr> else item)
           (items st)
   \<and> 0 \<le> max 0 q
   \<and> aggregate_double its =
     \<lparr>protein = foldl (\<lambda>a item. round_double (a + round_double
                   ((case macros item of None \<Rightarrow> 0 | Some m \<Rightarrow> protein m)
                    * (case quantity item of None \<Rightarrow> 1 | Some q \<Rightarrow> if q = 0 then 1 else q)))) 0 its,
      fat = foldl (\<lambda>a item. round_double (a + round_double
                   ((case macros item of None \<Rightarrow> 0 | Some m \<Rightarrow> fat m)
                    * (case quantity item of None \<Rightarrow> 1 | Some q \<Rightarrow> if q = 0 then 1 else q)))) 0 its,
      total_carbs = foldl (\<lambda>a item. round_double (a + round_double
                   ((case macros item of None \<Rightarrow> 0 | Some m \<Rightarrow> total_carbs m)
                    * (case quantity item of None \<Rightarrow> 1 | Some q \<Rightarrow> if q = 0 then 1 else q)))) 0 its,
      fiber = foldl (\<lambda>a item. round_double (a + round_double
                   ((case macros item of None \<Rightarrow> 0 | Some m \<Rightarrow> fiber m)
                    * (case quantity item of None \<Rightarrow> 1 | Some q \<Rightarrow> if q = 0 then 1 else q)))) 0 its,
      sugar = foldl (\<lambda>a item. round_double (a + round_double
                   ((case macros item of None \<Rightarrow> 0 | Some m \<Rightarrow> sugar m)
                    * (case quantity item of None \<Rightarrow> 1 | Some q \<Rightarrow> if q = 0 then 1 else q)))) 0 its\<rparr>"
proof -
  have d: "dstep f = (\<lambda>a item. round_double (a + round_double
                   ((case macros item of None \<Rightarrow> 0 | Some m \<Rightarrow> f m)
                    * (case quantity item of None \<Rightarrow> 1 | Some q \<Rightarrow> if q = 0 then 1 else q))))" for f
    by (intro ext) (simp only: dstep_def contribution_explicit)
  show ?thesis
    by (simp add: aggregate_sums contribution_explicit updateItemQuantity_def begin_items
        aggregate_double_def foldl_reducer_double zeroMacros_def d)
qed

text \<open>
  C5, as stated, fails: three items of 0.1, 0.2 and 0.3 grams of protein aggregate to
  0.6000000000000001 in this order and to 0.6 in the reverse order.
\<close>

theorem reordering_changes_aggregate:
  "mset [itemThreeTenths, itemFifth, itemTenth] = mset [itemTenth, itemFifth, itemThreeTenths]
   \<and> macro_of protein itemTenth = round_double (1 / 10)
   \<and> macro_of protein itemFifth = round_double (2 / 10)
   \<and> macro_of protein itemThreeTenths = round_double (3 / 10)
   \<and> protein (aggregate_double [itemTenth, itemFifth, itemThreeTenths])
       = 1351079888211149 / 2251799813685248
   \<and> protein (aggregate_double [itemThreeTenths, itemFifth, itemTenth])
       = 5404319552844595 / 9007199254740992
   \<and> aggregate_double [itemThreeTenths, itemFifth, itemTenth]
       \<noteq> aggregate_double [itemTenth, itemFifth, itemThreeTenths]"
proof -
  have p: "mset [itemThreeTenths, itemFifth, itemTenth] = mset [itemTenth, itemFifth, itemThreeTenths]"
    by (simp add: add.commute add.left_commute)
  have m: "macro_of protein itemTenth = round_double (1 / 10)"
    "macro_of protein itemFifth = round_double (2 / 10)"
    "macro_of protein itemThreeTenths = round_double (3 / 10)"
    by (simp_all add: macro_of_def js_or_def itemTenth_def itemFifth_def itemThreeTenths_def
        proteinOnly_def rd_eval)
  have "protein (aggregate_double [itemThreeTenths, itemFifth, itemTenth])
          \<noteq> protein (aggregate_double [itemTenth, itemFifth, itemThreeTenths])"
    by (simp add: forward_sum backward_sum)
  then have d: "aggregate_double [itemThreeTenths, itemFifth, itemTenth]
                  \<noteq> aggregate_double [itemTenth, itemFifth, itemThreeTenths]"
    by auto
  from p m d show ?thesis
    by (simp only: forward_sum backward_sum simp_thms)
qed

text \<open>
  C5, amended. The aggregate is a pure, full reduction of the current item list, in double
  arithmetic from left to right: a store with items sends the fold of its own items, and
  computing again on the unchanged store sends the same request. Its result does not depend
  on the order of the items when every share (nutrient times effective quantity) is a whole
  number and every component's sum is below \<open>2^53\<close>: then no step rounds and the result is
  the exact sum, which never depends on the order. The cart of the two example items
  aggregates to protein 20, fat 9, total carbs 40, fiber 4, sugar 9.
\<close>

theorem aggregate_order_when_exact:
  "(mset ys = mset xs \<and> wholeCart xs \<longrightarrow>
      aggregate_double ys = aggregate_double xs \<and> aggregate_double xs = aggregate xs)
   \<and> (mset ys = mset xs \<longrightarrow> aggregate ys = aggregate xs)
   \<and> (items st \<noteq> [] \<longrightarrow>
        snd (calculateTotals_begin st)
          = Some \<lparr>requestBody = \<lparr>aggregated_input_data = aggregate_double (items st),
                                 anchor_id = anchorKey st\<rparr>,
                  capturedCount = length (items st)\<rparr>
        \<and> snd (calculateTotals_begin (fst (calculateTotals_begin st)))
            = snd (calculateTotals_begin st))
   \<and> aggregate_double [itemA, itemB]
       = \<lparr>protein = 20, fat = 9, total_carbs = 40, fiber = 4, sugar = 9\<rparr>"
proof (intro conjI impI)
  assume h: "mset ys = mset xs \<and> wholeCart xs"
  then have p: "mset ys = mset xs" and w: "wholeCart xs" by simp_all
  from w wholeCart_perm [OF p] have wy: "wholeCart ys" by simp
  have e: "aggregate ys = aggregate xs"
    by (simp add: aggregate_sums sum_list_perm [OF p])
  from w show "aggregate_double xs = aggregate xs" by (rule aggregate_double_whole)
  with aggregate_double_whole [OF wy] e show "aggregate_double ys = aggregate_double xs" by simp
next
  assume "mset ys = mset xs"
  then show "aggregate ys = aggregate xs"
    by (simp add: aggregate_sums sum_list_perm [of ys xs])
next
  assume "items st \<noteq> []"
  then show "snd (calculateTotals_begin st)
          = Some \<lparr>requestBody = \<lparr>aggregated_input_data = aggregate_double (items st),
                                 anchor_id = anchorKey st\<rparr>,
                  capturedCount = length (items st)\<rparr>"
    by (rule begin_request)
next
  show "snd (calculateTotals_begin (fst (calculateTotals_begin st))) = snd (calculateTotals_begin st)"
    by (rule begin_again)
next
  show "aggregate_double [itemA, itemB]
          = \<lparr>protein = 20, fat = 9, total_carbs = 40, fiber = 4, sugar = 9\<rparr>"
    by (rule aggregate_double_AB)
qed

text \<open>C5, amended, at the two example items swapped and at the store holding them.\<close>

theorem aggregate_order_when_exact_witness:
  "mset [itemB, itemA] = mset [itemA, itemB] \<and> wholeCart [itemA, itemB]
   \<and> items cartAB \<noteq> []
   \<and> aggregate_double [itemB, itemA] = aggregate_double [itemA, itemB]
   \<and> aggregate_double [itemB, itemA]
       = \<lparr>protein = 20, fat = 9, total_carbs = 40, fiber = 4, sugar = 9\<rparr>
   \<and> snd (calculateTotals_begin cartAB) = Some (pendingFor ''protein'')"
proof -
  have h: "mset [itemB, itemA] = mset [itemA, itemB]"
    by (simp add: add.commute)
  have i: "items cartAB = [itemA, itemB]" "anchorKey cartAB = ''protein''"
    by (simp_all add: cartAB_def initialCartState_def)
  have r: "pendingFor ''protein''
             = \<lparr>requestBody = \<lparr>aggregated_input_data = aggregate_double (items cartAB),
                                    anchor_id = anchorKey cartAB\<rparr>,
                     capturedCount = length (items cartAB)\<rparr>"
    by (simp add: pendingFor_def i)
  have n: "items cartAB \<noteq> []" by (simp add: i)
  note t = aggregate_order_when_exact [of "[itemB, itemA]" "[itemA, itemB]" cartAB]
  from t h wholeCart_AB
  have a: "aggregate_double [itemB, itemA] = aggregate_double [itemA, itemB]" by blast
  from t have b: "aggregate_double [itemA, itemB]
                    = \<lparr>protein = 20, fat = 9, total_carbs = 40, fiber = 4, sugar = 9\<rparr>"
    by blast
  from a b have b': "aggregate_double [itemB, itemA]
                    = \<lparr>protein = 20, fat = 9, total_carbs = 40, fiber = 4, sugar = 9\<rparr>"
    by (rule trans)
  from t n have c: "snd (calculateTotals_begin cartAB) = Some (pendingFor ''protein'')"
    unfolding r by blast
  from h wholeCart_AB n a b' c show ?thesis by blast
qed

subsection \<open>Failed acquisition flows\<close>




subsection \<open>Replies out of order\<close>

text \<open>
  C7, as stated, fails: the anchor is set to fat and then to protein, the reply to the second
  request (score 30) arrives first and the reply to the first (score 10) arrives after it;
  the store ends with the anchor protein and the score 10 of the superseded request.
\<close>

theorem late_reply_overwrites:
  "snd firstTrigger = Some (pendingFor ''fat'') \<and> snd secondTrigger = Some (pendingFor ''protein'')
   \<and> anchorKey (fst secondTrigger) = ''protein''
   \<and> map_option predicted_spike
        (cartTotals (calculateTotals_settle (pendingFor ''protein'') (Resolved (replyWith 30))
                       (fst secondTrigger))) = Some (Some 30)
   \<and> map_option predicted_spike
        (cartTotals (calculateTotals_settle (pendingFor ''fat'') (Resolved (replyWith 10))
                       (calculateTotals_settle (pendingFor ''protein'') (Resolved (replyWith 30))
                          (fst secondTrigger)))) = Some (Some 10)"
  by (simp add: firstTrigger_eq secondTrigger_eq calculateTotals_settle_def totalsWithCount_def
      replyWith_def cartAB_def initialCartState_def)

text \<open>
  C7, amended. The store keeps no sequence number: every reply that resolves is written to
  \<^verbatim>\<open>cartTotals\<close> when it arrives, whatever the store holds, so the displayed result is that
  of the reply that arrived last, not that of the request issued last.
\<close>

theorem last_reply_wins:
  "cartTotals (calculateTotals_settle p (Resolved r) st) = Some (totalsWithCount r (capturedCount p))
   \<and> cartTotals (settleAll (arrivals @ [(p, Resolved r)]) st)
       = Some (totalsWithCount r (capturedCount p))"
  by (simp add: calculateTotals_settle_def settleAll_def)

subsection \<open>The needle animation\<close>




subsection \<open>Item identifiers\<close>

text \<open>
  C9. Every addItem should give the new item an id that no item of the cart has. The id is
  the decimal text of \<^verbatim>\<open>Date.now()\<close>: two calls within the same millisecond give two items
  the same id. The ids stay distinct when the new time is not yet an id of the cart
  (\<open>addItem_distinct_if_new_time\<close>, \<open>toString_inj\<close>), and the other two parts of the claim
  hold (\<open>addItem_keeps_items\<close>, \<open>removeItem_items\<close>, \<open>updateItemQuantity_ids\<close>).
\<close>

theorem addItem_same_millisecond:
  "map item_id (items (fst (addItem 1700000000000 itemB
                              (fst (addItem 1700000000000 itemA initialCartState)))))
     = [''1700000000000'', ''1700000000000'']
   \<and> \<not> distinct (map item_id (items (fst (addItem 1700000000000 itemB
                       (fst (addItem 1700000000000 itemA initialCartState))))))"
  by (simp add: addItem_def begin_items Let_def initialCartState_def toString.simps)

subsection \<open>Clearing the cart\<close>

text \<open>
  C10, as stated, fails: a cart with totals and a recorded error shows the error; after
  clearCart the error is still in the store and the page no longer shows it.
\<close>

theorem cleared_cart_hides_error:
  "error cartWithError = Some ''Failed to fetch''
   \<and> shownCartError cartWithError = Some ''Failed to fetch''
   \<and> error (clearCart cartWithError) = Some ''Failed to fetch''
   \<and> shownCartError (clearCart cartWithError) = None"
  by (simp add: cartWithError_eq shownCartError_def clearCart_def cartAB_def initialCartState_def)

text \<open>
  C10, amended. clearCart writes exactly \<^verbatim>\<open>items\<close> (to the empty list) and \<^verbatim>\<open>cartTotals\<close> (to
  null), in one update; the anchor key and a recorded error message are left as they were
  in the store, and the page, which shows the error only inside the analysis card of a cart
  with items, does not show it after the cart is emptied.
\<close>

theorem clearCart_frame:
  "clearCart st = st\<lparr>items := [], cartTotals := None\<rparr>
   \<and> items (clearCart st) = [] \<and> cartTotals (clearCart st) = None
   \<and> anchorKey (clearCart st) = anchorKey st \<and> error (clearCart st) = error st
   \<and> CartState.more (clearCart st) = CartState.more st
   \<and> shownCartError (clearCart st) = None"
  by (simp add: clearCart_def shownCartError_def)

end
